theory Spec2Isabelle
  imports Complex_Main "HOL-Library.Log_Nat"
begin

section \<open>Python values read from the input dictionary\<close>

subsection \<open>Floats\<close>

text \<open>
  A Python float is an IEEE 754 binary64 number. A finite one is modelled by the real
  number it denotes, next to the two infinities and NaN; the two zeros are one value
  (the engine never divides, so the sign of a zero reaches no result). Every
  arithmetic operation rounds its exact result to the nearest double, a tie to the
  even significand, and overflows to an infinity.
\<close>

datatype pyfloat = Finite real | PosInf | NegInf | NaN

definition round_he :: "real \<Rightarrow> int" where
  \<comment> \<open>the nearest integer, a tie to the even one\<close>
  "round_he y =
     (let f = \<lfloor>y\<rfloor>; d = y - of_int f
      in if d < 1 / 2 then f
         else if d > 1 / 2 then f + 1
         else if even f then f else f + 1)"

definition binade :: "real \<Rightarrow> int" where
  \<comment> \<open>the exponent \<open>e\<close> with \<open>2 ^ e \<le> \<bar>x\<bar> < 2 ^ (e + 1)\<close>, for \<open>x \<noteq> 0\<close>\<close>
  "binade x =
     (if 1 \<le> \<bar>x\<bar> then bitlen \<lfloor>\<bar>x\<bar>\<rfloor> - 1 else - bitlen (\<lceil>1 / \<bar>x\<bar>\<rceil> - 1))"

definition ulp :: "real \<Rightarrow> real" where
  \<comment> \<open>the spacing of the doubles around \<open>x\<close>: 53 significant bits, and the fixed
      spacing \<open>2 ^ - 1074\<close> of the subnormal range\<close>
  "ulp x = 2 powi (max (binade x) (- 1022) - 52)"

definition rd :: "real \<Rightarrow> pyfloat" where
  \<comment> \<open>rounding to the nearest double\<close>
  "rd x =
     (let u = ulp x; y = of_int (round_he (x / u)) * u
      in if y \<ge> 2 ^ 1024 then PosInf
         else if y \<le> - (2 ^ 1024) then NegInf
         else Finite y)"

fun fneg :: "pyfloat \<Rightarrow> pyfloat" where
  "fneg (Finite x) = Finite (- x)"
| "fneg PosInf = NegInf"
| "fneg NegInf = PosInf"
| "fneg NaN = NaN"

fun fadd :: "pyfloat \<Rightarrow> pyfloat \<Rightarrow> pyfloat" where
  "fadd (Finite x) (Finite y) = rd (x + y)"
| "fadd NaN b = NaN"
| "fadd a NaN = NaN"
| "fadd PosInf NegInf = NaN"
| "fadd NegInf PosInf = NaN"
| "fadd PosInf b = PosInf"
| "fadd a PosInf = PosInf"
| "fadd NegInf b = NegInf"
| "fadd a NegInf = NegInf"

definition fsub :: "pyfloat \<Rightarrow> pyfloat \<Rightarrow> pyfloat" where
  "fsub a b = fadd a (fneg b)"

fun fmul :: "pyfloat \<Rightarrow> pyfloat \<Rightarrow> pyfloat" where
  "fmul (Finite x) (Finite y) = rd (x * y)"
| "fmul NaN b = NaN"
| "fmul a NaN = NaN"
| "fmul (Finite x) b = (if x = 0 then NaN else if x > 0 then b else fneg b)"
| "fmul a (Finite y) = (if y = 0 then NaN else if y > 0 then a else fneg a)"
| "fmul PosInf b = b"
| "fmul NegInf b = fneg b"

fun fabs :: "pyfloat \<Rightarrow> pyfloat" where
  "fabs (Finite x) = Finite \<bar>x\<bar>"
| "fabs PosInf = PosInf"
| "fabs NegInf = PosInf"
| "fabs NaN = NaN"

fun flt :: "pyfloat \<Rightarrow> pyfloat \<Rightarrow> bool" where
  \<comment> \<open>\<^verbatim>\<open>a < b\<close>: false as soon as one side is NaN\<close>
  "flt (Finite x) (Finite y) = (x < y)"
| "flt NaN b = False"
| "flt a NaN = False"
| "flt a NegInf = False"
| "flt NegInf b = True"
| "flt PosInf b = False"
| "flt a PosInf = True"

fun fle :: "pyfloat \<Rightarrow> pyfloat \<Rightarrow> bool" where
  \<comment> \<open>\<^verbatim>\<open>a <= b\<close>\<close>
  "fle (Finite x) (Finite y) = (x \<le> y)"
| "fle NaN b = False"
| "fle a NaN = False"
| "fle NegInf b = True"
| "fle a PosInf = True"
| "fle a b = False"

definition fgt :: "pyfloat \<Rightarrow> pyfloat \<Rightarrow> bool" where
  \<comment> \<open>\<^verbatim>\<open>a > b\<close>\<close>
  "fgt a b = flt b a"

definition py_min :: "pyfloat \<Rightarrow> pyfloat \<Rightarrow> pyfloat" where
  \<comment> \<open>\<^verbatim>\<open>min(a, b)\<close> keeps the first argument unless the second is smaller\<close>
  "py_min a b = (if flt b a then b else a)"

definition py_min3 :: "pyfloat \<Rightarrow> pyfloat \<Rightarrow> pyfloat \<Rightarrow> pyfloat" where
  \<comment> \<open>\<^verbatim>\<open>min(a, b, c)\<close>, from left to right\<close>
  "py_min3 a b c = py_min (py_min a b) c"

definition py_max :: "pyfloat \<Rightarrow> pyfloat \<Rightarrow> pyfloat" where
  \<comment> \<open>\<^verbatim>\<open>max(a, b)\<close> keeps the first argument unless the second is larger\<close>
  "py_max a b = (if fgt b a then b else a)"

fun py_round2 :: "pyfloat \<Rightarrow> pyfloat" where
  \<comment> \<open>\<^verbatim>\<open>round(x, 2)\<close>: the exact value of the double is rounded to two decimals, a tie
      to the even digit, and the decimal result is converted back to the nearest
      double; an infinity or NaN rounds to itself\<close>
  "py_round2 (Finite x) = rd (of_int (round_he (x * 100)) / 100)"
| "py_round2 PosInf = PosInf"
| "py_round2 NegInf = NegInf"
| "py_round2 NaN = NaN"

subsection \<open>Scalars, dictionaries and exceptions\<close>

text \<open>
  The engine (\<^verbatim>\<open>tax_engine.py\<close>) reads an untyped \<^verbatim>\<open>dict\<close>. The scalar values a
  field can hold are modelled by \<open>pyval\<close>; a string is a sequence of code points
  below 256.
\<close>

datatype pyval = PNone | PBool bool | PInt int | PFloat pyfloat | PStr string

datatype py_error = TypeError | ValueError | AttributeError | OverflowError

type_synonym pydict = "string \<rightharpoonup> pyval"

definition bind :: "py_error + 'a \<Rightarrow> ('a \<Rightarrow> py_error + 'b) \<Rightarrow> py_error + 'b" where
  \<comment> \<open>sequencing of two steps: an exception raised by the first one propagates\<close>
  "bind m f = (case m of Inl e \<Rightarrow> Inl e | Inr x \<Rightarrow> f x)"

definition truthy :: "pyval \<Rightarrow> bool" where
  \<comment> \<open>Python's truth value of a scalar; NaN and the infinities are true\<close>
  "truthy v = (case v of
      PNone \<Rightarrow> False
    | PBool b \<Rightarrow> b
    | PInt i \<Rightarrow> i \<noteq> 0
    | PFloat f \<Rightarrow> f \<noteq> Finite 0
    | PStr s \<Rightarrow> s \<noteq> [])"

definition py_or :: "pyval \<Rightarrow> pyval \<Rightarrow> pyval" where
  \<comment> \<open>\<^verbatim>\<open>a or b\<close>\<close>
  "py_or a b = (if truthy a then a else b)"

definition dict_get :: "pydict \<Rightarrow> string \<Rightarrow> pyval \<Rightarrow> pyval" where
  \<comment> \<open>\<^verbatim>\<open>data.get(k, d)\<close>; \<^verbatim>\<open>data.get(k)\<close> is \<open>dict_get data k PNone\<close>\<close>
  "dict_get data k d = (case data k of None \<Rightarrow> d | Some v \<Rightarrow> v)"

subsection \<open>Strings\<close>

definition is_space :: "char \<Rightarrow> bool" where
  \<comment> \<open>the code points below 256 that \<^verbatim>\<open>str.strip()\<close> removes\<close>
  "is_space c = (c \<in> set [CHR 0x09, CHR 0x0A, CHR 0x0B, CHR 0x0C, CHR 0x0D,
                            CHR 0x1C, CHR 0x1D, CHR 0x1E, CHR 0x1F, CHR 0x20,
                            CHR 0x85, CHR 0xA0])"

definition py_strip :: "string \<Rightarrow> string" where
  "py_strip s = rev (dropWhile is_space (rev (dropWhile is_space s)))"

definition upper_chars :: string where
  \<comment> \<open>the capital letters below 256: A to Z, and 0xC0 to 0xDE without the
      multiplication sign 0xD7\<close>
  "upper_chars = ''ABCDEFGHIJKLMNOPQRSTUVWXYZ'' @
     [CHR 0xC0, CHR 0xC1, CHR 0xC2, CHR 0xC3, CHR 0xC4, CHR 0xC5, CHR 0xC6, CHR 0xC7,
      CHR 0xC8, CHR 0xC9, CHR 0xCA, CHR 0xCB, CHR 0xCC, CHR 0xCD, CHR 0xCE, CHR 0xCF,
      CHR 0xD0, CHR 0xD1, CHR 0xD2, CHR 0xD3, CHR 0xD4, CHR 0xD5, CHR 0xD6,
      CHR 0xD8, CHR 0xD9, CHR 0xDA, CHR 0xDB, CHR 0xDC, CHR 0xDD, CHR 0xDE]"

definition lower_chars :: string where
  \<comment> \<open>their small letters, 32 code points higher\<close>
  "lower_chars = ''abcdefghijklmnopqrstuvwxyz'' @
     [CHR 0xE0, CHR 0xE1, CHR 0xE2, CHR 0xE3, CHR 0xE4, CHR 0xE5, CHR 0xE6, CHR 0xE7,
      CHR 0xE8, CHR 0xE9, CHR 0xEA, CHR 0xEB, CHR 0xEC, CHR 0xED, CHR 0xEE, CHR 0xEF,
      CHR 0xF0, CHR 0xF1, CHR 0xF2, CHR 0xF3, CHR 0xF4, CHR 0xF5, CHR 0xF6,
      CHR 0xF8, CHR 0xF9, CHR 0xFA, CHR 0xFB, CHR 0xFC, CHR 0xFD, CHR 0xFE]"

definition lower_char :: "char \<Rightarrow> char" where
  \<comment> \<open>a capital becomes its small letter, any other character stays\<close>
  "lower_char c = (case map_of (zip upper_chars lower_chars) c of None \<Rightarrow> c | Some d \<Rightarrow> d)"

definition py_lower :: "string \<Rightarrow> string" where
  "py_lower s = map lower_char s"

subsection \<open>Conversion to float\<close>

definition float_of_int :: "int \<Rightarrow> py_error + pyfloat" where
  \<comment> \<open>\<^verbatim>\<open>float(i)\<close>: the nearest double, OverflowError beyond the double range\<close>
  "float_of_int i = (case rd (of_int i) of Finite r \<Rightarrow> Inr (Finite r) | _ \<Rightarrow> Inl OverflowError)"

definition digit_val :: "char \<Rightarrow> nat option" where
  "digit_val c = (let n = (of_char c :: nat) in
     if 48 \<le> n \<and> n \<le> 57 then Some (n - 48) else None)"

definition is_digit :: "char \<Rightarrow> bool" where
  "is_digit c = (digit_val c \<noteq> None)"

fun digits_val :: "string \<Rightarrow> nat \<Rightarrow> nat option" where
  \<comment> \<open>the number that a string of digits denotes, after the digits already read\<close>
  "digits_val [] acc = Some acc"
| "digits_val (c # cs) acc =
     (case digit_val c of None \<Rightarrow> None | Some d \<Rightarrow> digits_val cs (10 * acc + d))"

fun underscores_ok :: "char \<Rightarrow> string \<Rightarrow> bool" where
  \<comment> \<open>an underscore is allowed between two digits only; the first argument is the
      character before\<close>
  "underscores_ok prev [] = (prev \<noteq> CHR ''_'')"
| "underscores_ok prev (c # cs) =
     ((if c = CHR ''_'' then is_digit prev
       else if prev = CHR ''_'' then is_digit c else True)
      \<and> underscores_ok c cs)"

definition is_exp_mark :: "char \<Rightarrow> bool" where
  "is_exp_mark c = (c = CHR ''e'' \<or> c = CHR ''E'')"

definition parse_decimal :: "string \<Rightarrow> (nat \<times> nat) option" where
  \<comment> \<open>\<^verbatim>\<open>digits\<close>, \<^verbatim>\<open>digits.\<close>, \<^verbatim>\<open>digits.digits\<close> or \<^verbatim>\<open>.digits\<close>: all the digits as one number,
      and how many of them follow the point\<close>
  "parse_decimal s =
     (let ip = takeWhile (\<lambda>c. c \<noteq> CHR ''.'') s;
          rest = dropWhile (\<lambda>c. c \<noteq> CHR ''.'') s;
          fp = (case rest of [] \<Rightarrow> [] | _ # cs \<Rightarrow> cs)
      in if ip = [] \<and> fp = [] then None
         else (case digits_val (ip @ fp) 0 of
                 None \<Rightarrow> None
               | Some n \<Rightarrow> Some (n, length fp)))"

definition parse_exponent :: "string \<Rightarrow> int option" where
  \<comment> \<open>what follows the exponent mark: an optional sign and at least one digit\<close>
  "parse_exponent s =
     (let neg = (case s of [] \<Rightarrow> False | c # _ \<Rightarrow> c = CHR ''-'');
          ds = (case s of [] \<Rightarrow> [] | c # cs \<Rightarrow> if c = CHR ''-'' \<or> c = CHR ''+'' then cs else s)
      in if ds = [] then None
         else (case digits_val ds 0 of
                 None \<Rightarrow> None
               | Some n \<Rightarrow> Some (if neg then - int n else int n)))"

definition parse_number :: "string \<Rightarrow> real option" where
  \<comment> \<open>an unsigned decimal literal with an optional exponent, as the exact number\<close>
  "parse_number s =
     (case parse_decimal (takeWhile (\<lambda>c. \<not> is_exp_mark c) s) of
        None \<Rightarrow> None
      | Some (n, k) \<Rightarrow>
          (case dropWhile (\<lambda>c. \<not> is_exp_mark c) s of
             [] \<Rightarrow> Some (real n * 10 powi (- int k))
           | _ # ex \<Rightarrow>
               (case parse_exponent ex of
                  None \<Rightarrow> None
                | Some e \<Rightarrow> Some (real n * 10 powi (e - int k)))))"

definition parse_unsigned :: "string \<Rightarrow> pyfloat option" where
  \<comment> \<open>\<^verbatim>\<open>inf\<close>, \<^verbatim>\<open>infinity\<close> and \<^verbatim>\<open>nan\<close> in any case, or a number, rounded to the nearest
      double\<close>
  "parse_unsigned s =
     (if py_lower s = ''inf'' \<or> py_lower s = ''infinity'' then Some PosInf
      else if py_lower s = ''nan'' then Some NaN
      else map_option rd (parse_number s))"

definition is_float_space :: "char \<Rightarrow> bool" where
  \<comment> \<open>the blanks that \<^verbatim>\<open>float\<close> removes around a literal: the ASCII ones without the
      separators 0x1C to 0x1F, and the two blanks above 127\<close>
  "is_float_space c = (c \<in> set [CHR 0x09, CHR 0x0A, CHR 0x0B, CHR 0x0C, CHR 0x0D, CHR 0x20,
                                  CHR 0x85, CHR 0xA0])"

definition float_of_str :: "string \<Rightarrow> pyfloat option" where
  \<comment> \<open>\<^verbatim>\<open>float(s)\<close>; None stands for the ValueError\<close>
  "float_of_str s =
     (if \<not> underscores_ok (CHR 0x00) s then None
      else (case rev (dropWhile is_float_space (rev (dropWhile is_float_space
                   (filter (\<lambda>c. c \<noteq> CHR ''_'') s)))) of
              [] \<Rightarrow> None
            | c # cs \<Rightarrow>
                if c = CHR ''-'' then map_option fneg (parse_unsigned cs)
                else if c = CHR ''+'' then parse_unsigned cs
                else parse_unsigned (c # cs)))"

definition py_float :: "pyval \<Rightarrow> py_error + pyfloat" where
  \<comment> \<open>\<^verbatim>\<open>float(v)\<close>: None raises TypeError, a string that is no literal ValueError\<close>
  "py_float v = (case v of
      PNone \<Rightarrow> Inl TypeError
    | PBool b \<Rightarrow> Inr (Finite (if b then 1 else 0))
    | PInt i \<Rightarrow> float_of_int i
    | PFloat f \<Rightarrow> Inr f
    | PStr s \<Rightarrow> (case float_of_str s of None \<Rightarrow> Inl ValueError | Some f \<Rightarrow> Inr f))"

definition float_field :: "pydict \<Rightarrow> string \<Rightarrow> py_error + pyfloat" where
  \<comment> \<open>\<^verbatim>\<open>float(data.get(k, 0) or 0)\<close>\<close>
  "float_field data k = py_float (py_or (dict_get data k (PInt 0)) (PInt 0))"

section \<open>Professional tax lookup\<close>

definition high_pt_states :: "string list" where
  "high_pt_states =
     [''maharashtra'', ''karnataka'', ''telangana'', ''andhra pradesh'',
      ''west bengal'', ''tamil nadu'', ''gujarat'', ''madhya pradesh'', ''kerala'', ''odisha'']"

definition get_professional_tax :: "pyval \<Rightarrow> pyfloat \<Rightarrow> py_error + pyfloat" where
  \<comment> \<open>\<^verbatim>\<open>state.lower()\<close> exists only on a string: any other value raises AttributeError\<close>
  "get_professional_tax state gross_income = (case state of
      PStr s \<Rightarrow>
        (let state' = py_strip (py_lower s) in
         if state' \<in> set high_pt_states then
           (if fgt gross_income (Finite 150000) then Inr (Finite 2500)
            else if fgt gross_income (Finite 100000) then Inr (Finite 2000)
            else Inr (Finite 0))
         else Inr (Finite 0))
    | _ \<Rightarrow> Inl AttributeError)"

section \<open>The calculators\<close>

text \<open>
  The local variables of a calculator, before the rounding of the return statement.
  \<open>tax_vars\<close> holds the ones both regimes have, \<open>old_vars\<close> adds the deduction
  amounts of the Old Regime. An int that the source mixes with floats (a constant, or
  the zero that \<^verbatim>\<open>max(0, x)\<close> returns) is the float of the same value: these ints are
  small, so their arithmetic is exact in both types.
\<close>

record tax_vars =
  gross_income :: pyfloat
  std_deduction :: pyfloat
  total_deductions :: pyfloat
  taxable_income :: pyfloat
  base_tax :: pyfloat
  cess :: pyfloat
  total_tax :: pyfloat

record old_vars = tax_vars +
  prof_tax :: pyfloat
  ded_80c :: pyfloat
  ded_80d :: pyfloat
  ded_80ccd_1b :: pyfloat
  ded_80tta :: pyfloat
  home_loan_interest :: pyfloat
  hra_exemption :: pyfloat

text \<open>
  The returned dictionary. Its keys are the field names with the prefix \<open>out_\<close>;
  \<open>out_components\<close> is the nested \<^verbatim>\<open>components\<close> dictionary in insertion order, absent
  in the New Regime.
\<close>

record regime_result =
  out_regime :: string
  out_gross_income :: pyfloat
  out_total_deductions :: pyfloat
  out_taxable_income :: pyfloat
  out_base_tax :: pyfloat
  out_cess :: pyfloat
  out_total_tax_payable :: pyfloat
  out_components :: "(string \<times> pyfloat) list option"

subsection \<open>Old Regime\<close>

definition is_metro :: "pydict \<Rightarrow> py_error + bool" where
  \<comment> \<open>\<^verbatim>\<open>(data.get("city_type") or "").strip().lower() == "metro"\<close>; a truthy value that
      is no string has no \<^verbatim>\<open>strip\<close>\<close>
  "is_metro data = (case py_or (dict_get data ''city_type'' PNone) (PStr []) of
      PStr s \<Rightarrow> Inr (py_lower (py_strip s) = ''metro'')
    | _ \<Rightarrow> Inl AttributeError)"

definition hra_exemption_of ::
  "pydict \<Rightarrow> pyfloat \<Rightarrow> pyfloat \<Rightarrow> pyfloat \<Rightarrow> py_error + pyfloat" where
  \<comment> \<open>lines 38 and 41 to 47; the city type is read only inside the branch\<close>
  "hra_exemption_of data salary hra_received rent_paid =
     (if fgt hra_received (Finite 0) \<and> fgt rent_paid (Finite 0) \<and> fgt salary (Finite 0) then
        (let actual_hra = hra_received;
             rent_minus_10 = py_max (Finite 0) (fsub rent_paid (fmul (rd 0.10) salary))
         in bind (is_metro data) (\<lambda>metro.
              let limit_pct = (if metro then rd 0.50 else rd 0.40);
                  hra_limit = fmul limit_pct salary
              in Inr (py_min3 actual_hra rent_minus_10 hra_limit)))
      else Inr (Finite 0))"

definition old_slabs :: "real \<Rightarrow> real" where
  \<comment> \<open>lines 56 to 63: the slab computation, before the rebate, in exact arithmetic\<close>
  "old_slabs ti =
     (if ti \<le> 250000 then 0
      else if ti \<le> 500000 then (ti - 250000) * 0.05
      else if ti \<le> 1000000 then 12500 + (ti - 500000) * 0.20
      else 112500 + (ti - 1000000) * 0.30)"

definition old_slabs_fl :: "pyfloat \<Rightarrow> pyfloat" where
  \<comment> \<open>lines 56 to 63 as the interpreter runs them, in double arithmetic\<close>
  "old_slabs_fl ti =
     (if fle ti (Finite 250000) then Finite 0
      else if fle ti (Finite 500000) then fmul (fsub ti (Finite 250000)) (rd 0.05)
      else if fle ti (Finite 1000000) then
        fadd (Finite 12500) (fmul (fsub ti (Finite 500000)) (rd 0.20))
      else fadd (Finite 112500) (fmul (fsub ti (Finite 1000000)) (rd 0.30)))"

definition old_rebate :: "pyfloat \<Rightarrow> pyfloat \<Rightarrow> pyfloat" where
  \<comment> \<open>lines 65 and 66\<close>
  "old_rebate ti bt = (if fle ti (Finite 500000) then Finite 0 else bt)"

definition old_regime_compute ::
  "pyfloat \<Rightarrow> pyfloat \<Rightarrow> pyfloat \<Rightarrow> pyfloat \<Rightarrow> pyfloat \<Rightarrow> pyfloat \<Rightarrow> pyfloat \<Rightarrow> pyfloat
     \<Rightarrow> old_vars" where
  \<comment> \<open>the arithmetic of lines 31 to 37 and 49 to 69, on the values already read\<close>
  "old_regime_compute gross pt v80c v80d v80ccd v80tta vhli hra =
     (let c80 = py_min v80c (Finite 150000);
          d80 = py_min v80d (Finite 25000);
          ccd = py_min v80ccd (Finite 50000);
          tta = py_min v80tta (Finite 10000);
          hli = py_min vhli (Finite 200000);
          std = Finite 50000;
          td = fadd (fadd (fadd (fadd (fadd (fadd (fadd std pt) c80) d80) ccd) tta) hli) hra;
          ti = py_max (Finite 0) (fsub gross td);
          bt = old_rebate ti (old_slabs_fl ti);
          cs = fmul bt (rd 0.04)
      in \<lparr> gross_income = gross, std_deduction = std, total_deductions = td,
            taxable_income = ti, base_tax = bt, cess = cs, total_tax = fadd bt cs,
            prof_tax = pt, ded_80c = c80, ded_80d = d80, ded_80ccd_1b = ccd,
            ded_80tta = tta, home_loan_interest = hli, hra_exemption = hra \<rparr>)"

definition old_regime_vars :: "pydict \<Rightarrow> py_error + old_vars" where
  \<comment> \<open>lines 24 to 69 of \<^verbatim>\<open>calculate_tax_old_regime\<close>: the fields are read in the order
      of the source, so the first conversion that fails is the exception raised\<close>
  "old_regime_vars data =
     bind (float_field data ''annual_income'') (\<lambda>salary.
     bind (float_field data ''income_from_interest'') (\<lambda>interest.
     bind (float_field data ''income_from_other_sources'') (\<lambda>other.
     bind (get_professional_tax (dict_get data ''state'' (PStr ''Delhi''))
             (fadd (fadd salary interest) other)) (\<lambda>pt.
     bind (float_field data ''section_80c'') (\<lambda>v80c.
     bind (float_field data ''section_80d'') (\<lambda>v80d.
     bind (float_field data ''section_80ccd_1b'') (\<lambda>v80ccd.
     bind (float_field data ''section_80tta'') (\<lambda>v80tta.
     bind (float_field data ''home_loan_interest'') (\<lambda>vhli.
     bind (float_field data ''hra_received'') (\<lambda>hra_received.
     bind (float_field data ''rent_paid'') (\<lambda>rent_paid.
     bind (hra_exemption_of data salary hra_received rent_paid) (\<lambda>hra.
     Inr (old_regime_compute (fadd (fadd salary interest) other) pt
            v80c v80d v80ccd v80tta vhli hra)
     ))))))))))))"

definition old_regime_return :: "old_vars \<Rightarrow> regime_result" where
  \<comment> \<open>lines 71 to 89: the returned dictionary\<close>
  "old_regime_return v =
     \<lparr> out_regime = ''Old Regime'',
       out_gross_income = py_round2 (gross_income v),
       out_total_deductions = py_round2 (total_deductions v),
       out_taxable_income = py_round2 (taxable_income v),
       out_base_tax = py_round2 (base_tax v),
       out_cess = py_round2 (cess v),
       out_total_tax_payable = py_round2 (total_tax v),
       out_components = Some
         [(''Standard Deduction'', std_deduction v),
          (''80C'', ded_80c v),
          (''80D'', ded_80d v),
          (''80CCD(1B) (NPS)'', ded_80ccd_1b v),
          (''80TTA'', ded_80tta v),
          (''HRA Exemption'', py_round2 (hra_exemption v)),
          (''Home Loan Interest (24(b))'', home_loan_interest v),
          (''Professional Tax'', prof_tax v)] \<rparr>"

definition calculate_tax_old_regime :: "pydict \<Rightarrow> py_error + regime_result" where
  "calculate_tax_old_regime data =
     bind (old_regime_vars data) (\<lambda>v. Inr (old_regime_return v))"

subsection \<open>New Regime\<close>

definition new_slabs :: "real \<Rightarrow> real" where
  \<comment> \<open>lines 104 to 115: the slab computation, before the rebate, in exact arithmetic\<close>
  "new_slabs ti =
     (if ti \<le> 300000 then 0
      else if ti \<le> 600000 then (ti - 300000) * 0.05
      else if ti \<le> 900000 then 15000 + (ti - 600000) * 0.10
      else if ti \<le> 1200000 then 45000 + (ti - 900000) * 0.15
      else if ti \<le> 1500000 then 90000 + (ti - 1200000) * 0.20
      else 150000 + (ti - 1500000) * 0.30)"

definition new_slabs_fl :: "pyfloat \<Rightarrow> pyfloat" where
  \<comment> \<open>lines 104 to 115 as the interpreter runs them, in double arithmetic\<close>
  "new_slabs_fl ti =
     (if fle ti (Finite 300000) then Finite 0
      else if fle ti (Finite 600000) then fmul (fsub ti (Finite 300000)) (rd 0.05)
      else if fle ti (Finite 900000) then
        fadd (Finite 15000) (fmul (fsub ti (Finite 600000)) (rd 0.10))
      else if fle ti (Finite 1200000) then
        fadd (Finite 45000) (fmul (fsub ti (Finite 900000)) (rd 0.15))
      else if fle ti (Finite 1500000) then
        fadd (Finite 90000) (fmul (fsub ti (Finite 1200000)) (rd 0.20))
      else fadd (Finite 150000) (fmul (fsub ti (Finite 1500000)) (rd 0.30)))"

definition new_rebate :: "pyfloat \<Rightarrow> pyfloat \<Rightarrow> pyfloat" where
  \<comment> \<open>lines 117 and 118\<close>
  "new_rebate ti bt = (if fle ti (Finite 700000) then Finite 0 else bt)"

definition new_regime_compute :: "pyfloat \<Rightarrow> pyfloat \<Rightarrow> tax_vars" where
  \<comment> \<open>the arithmetic of lines 99 to 121, on the salary and the gross income\<close>
  "new_regime_compute salary gross =
     (let std = (if fgt salary (Finite 0) then Finite 50000 else Finite 0);
          td = std;
          ti = py_max (Finite 0) (fsub gross td);
          bt = new_rebate ti (new_slabs_fl ti);
          cs = fmul bt (rd 0.04)
      in \<lparr> gross_income = gross, std_deduction = std, total_deductions = td,
            taxable_income = ti, base_tax = bt, cess = cs, total_tax = fadd bt cs \<rparr>)"

definition new_regime_vars :: "pydict \<Rightarrow> py_error + tax_vars" where
  \<comment> \<open>lines 94 to 121 of \<^verbatim>\<open>calculate_tax_new_regime\<close>\<close>
  "new_regime_vars data =
     bind (float_field data ''annual_income'') (\<lambda>salary.
     bind (float_field data ''income_from_interest'') (\<lambda>interest_income.
     bind (float_field data ''income_from_other_sources'') (\<lambda>other_income.
     Inr (new_regime_compute salary (fadd (fadd salary interest_income) other_income)))))"

definition new_regime_return :: "tax_vars \<Rightarrow> regime_result" where
  \<comment> \<open>lines 123 to 131: the returned dictionary\<close>
  "new_regime_return v =
     \<lparr> out_regime = ''New Regime'',
       out_gross_income = py_round2 (gross_income v),
       out_total_deductions = py_round2 (total_deductions v),
       out_taxable_income = py_round2 (taxable_income v),
       out_base_tax = py_round2 (base_tax v),
       out_cess = py_round2 (cess v),
       out_total_tax_payable = py_round2 (total_tax v),
       out_components = None \<rparr>"

definition calculate_tax_new_regime :: "pydict \<Rightarrow> py_error + regime_result" where
  "calculate_tax_new_regime data =
     bind (new_regime_vars data) (\<lambda>v. Inr (new_regime_return v))"

subsection \<open>Comparison of the two regimes\<close>

text \<open>
  A suggestion is an f-string around the gap formatted with \<^verbatim>\<open>:,.0f\<close>; the model keeps
  which suggestion it is and the float that the format prints.
\<close>

datatype suggestion = Invest_80C pyfloat | Invest_NPS pyfloat | Consider_80D

record comparison =
  old_regime :: regime_result
  new_regime :: regime_result
  best_regime :: string
  tax_saved :: pyfloat
  suggestions :: "suggestion list"

definition lt_int :: "pyval \<Rightarrow> int \<Rightarrow> py_error + bool" where
  \<comment> \<open>\<^verbatim>\<open>v < c\<close> against an int: a string or None raises TypeError\<close>
  "lt_int v c = (case v of
      PBool b \<Rightarrow> Inr ((if b then 1 else 0) < c)
    | PInt i \<Rightarrow> Inr (i < c)
    | PFloat f \<Rightarrow> Inr (flt f (Finite (of_int c)))
    | _ \<Rightarrow> Inl TypeError)"

definition gap_of :: "int \<Rightarrow> pyval \<Rightarrow> py_error + pyfloat" where
  \<comment> \<open>the float that \<^verbatim>\<open>:,.0f\<close> prints for \<^verbatim>\<open>c - v\<close>: a difference of ints is an int,
      which the format converts, with OverflowError beyond the double range\<close>
  "gap_of c v = (case v of
      PBool b \<Rightarrow> float_of_int (c - (if b then 1 else 0))
    | PInt i \<Rightarrow> float_of_int (c - i)
    | PFloat f \<Rightarrow> Inr (fsub (Finite (of_int c)) f)
    | _ \<Rightarrow> Inl TypeError)"

definition py_eq0 :: "pyval \<Rightarrow> bool" where
  \<comment> \<open>\<^verbatim>\<open>v == 0\<close>, which never raises\<close>
  "py_eq0 v = (case v of
      PBool b \<Rightarrow> \<not> b
    | PInt i \<Rightarrow> i = 0
    | PFloat f \<Rightarrow> f = Finite 0
    | _ \<Rightarrow> False)"

definition gap_suggestion ::
  "pydict \<Rightarrow> string \<Rightarrow> int \<Rightarrow> (pyfloat \<Rightarrow> suggestion) \<Rightarrow> py_error + suggestion list" where
  \<comment> \<open>lines 142 to 144 and 145 to 147: the suggestion of a field below its cap\<close>
  "gap_suggestion data k c mk =
     (let v = py_or (dict_get data k PNone) (PInt 0) in
      bind (lt_int v c) (\<lambda>below.
        if below then bind (gap_of c v) (\<lambda>gap. Inr [mk gap]) else Inr []))"

definition make_suggestions :: "pydict \<Rightarrow> py_error + suggestion list" where
  \<comment> \<open>lines 141 to 149\<close>
  "make_suggestions data =
     bind (gap_suggestion data ''section_80c'' 150000 Invest_80C) (\<lambda>s1.
     bind (gap_suggestion data ''section_80ccd_1b'' 50000 Invest_NPS) (\<lambda>s2.
     let s3 = (if py_eq0 (py_or (dict_get data ''section_80d'' PNone) (PInt 0))
               then [Consider_80D] else [])
     in Inr (s1 @ s2 @ s3)))"

definition calculate_comprehensive :: "pydict \<Rightarrow> py_error + comparison" where
  "calculate_comprehensive data =
     bind (calculate_tax_old_regime data) (\<lambda>old_r.
     bind (calculate_tax_new_regime data) (\<lambda>new_r.
     let best = (if flt (out_total_tax_payable new_r) (out_total_tax_payable old_r)
                 then ''New Regime'' else ''Old Regime'');
         saved = fabs (fsub (out_total_tax_payable old_r) (out_total_tax_payable new_r))
     in bind (make_suggestions data) (\<lambda>sugg.
        Inr \<lparr> old_regime = old_r, new_regime = new_r, best_regime = best,
              tax_saved = py_round2 saved, suggestions = sugg \<rparr>)))"

section \<open>Basic facts\<close>

lemma bind_Inr [simp]: "bind (Inr x) f = f x"
  by (simp add: bind_def)

lemma bind_Inl [simp]: "bind (Inl e) f = Inl e"
  by (simp add: bind_def)

lemma bind_eq_Inr: "bind m f = Inr y \<longleftrightarrow> (\<exists>x. m = Inr x \<and> f x = Inr y)"
  by (cases m) simp_all

lemma round_he_err: "\<bar>of_int (round_he y) - y\<bar> \<le> 1 / 2"
proof -
  define f where "f = \<lfloor>y\<rfloor>"
  have "of_int f \<le> y" "y < of_int f + 1"
    unfolding f_def by linarith+
  then show ?thesis
    unfolding round_he_def Let_def f_def [symmetric] by (auto simp: abs_if)
qed

lemma round_he_0 [simp]: "round_he 0 = 0"
  by (simp add: round_he_def)

lemma round_he_nonneg: "0 \<le> y \<Longrightarrow> 0 \<le> round_he y"
  by (auto simp: round_he_def Let_def)

lemma round_he_nonpos: "y \<le> 0 \<Longrightarrow> round_he y \<le> 0"
proof -
  assume "y \<le> 0"
  then consider "y = 0" | "\<lfloor>y\<rfloor> \<le> - 1" by (cases "y = 0") (auto simp: floor_le_iff)
  then show ?thesis
  proof cases
    case 1 then show ?thesis by simp
  next
    case 2 then show ?thesis by (auto simp: round_he_def Let_def)
  qed
qed

lemma ulp_pos: "0 < ulp x"
  by (simp add: ulp_def)

lemma binade_le:
  assumes "x \<noteq> 0"
  shows "2 powi binade x \<le> \<bar>x\<bar>"
proof (cases "1 \<le> \<bar>x\<bar>")
  case True
  define n where "n = \<lfloor>\<bar>x\<bar>\<rfloor>"
  have n: "0 < n"
    using True by (simp add: n_def)
  have b: "1 \<le> bitlen n"
    using n bitlen_nonneg [of n] bitlen_eq_zero_iff [of n] by linarith
  have "2 ^ nat (bitlen n - 1) \<le> n"
    using bitlen_bounds [OF n] by simp
  then have "real_of_int (2 ^ nat (bitlen n - 1)) \<le> of_int n"
    by linarith
  also have "\<dots> \<le> \<bar>x\<bar>"
    by (simp add: n_def)
  finally have "(2::real) ^ nat (bitlen n - 1) \<le> \<bar>x\<bar>"
    by simp
  moreover have "binade x = bitlen n - 1"
    using True by (simp add: binade_def n_def)
  ultimately show ?thesis
    using b by (simp add: power_int_def)
next
  case False
  then have x: "0 < \<bar>x\<bar>" "\<bar>x\<bar> < 1"
    using assms by auto
  define m where "m = \<lceil>1 / \<bar>x\<bar>\<rceil> - 1"
  have "1 < 1 / \<bar>x\<bar>"
    using x by (simp add: field_simps)
  then have "2 \<le> \<lceil>1 / \<bar>x\<bar>\<rceil>"
    by linarith
  then have m: "0 < m"
    by (simp add: m_def)
  have b: "1 \<le> bitlen m"
    using m bitlen_nonneg [of m] bitlen_eq_zero_iff [of m] by linarith
  have "m < 2 ^ nat (bitlen m)"
    using bitlen_bounds [OF m] by simp
  then have "m + 1 \<le> 2 ^ nat (bitlen m)"
    by linarith
  then have "real_of_int (m + 1) \<le> real_of_int (2 ^ nat (bitlen m))"
    by linarith
  moreover have "1 / \<bar>x\<bar> \<le> real_of_int (m + 1)"
    by (simp add: m_def)
  ultimately have "1 / \<bar>x\<bar> \<le> 2 ^ nat (bitlen m)"
    by simp
  then have "1 / 2 ^ nat (bitlen m) \<le> \<bar>x\<bar>"
    using x by (simp add: field_simps)
  moreover have "binade x = - bitlen m"
    using False by (simp add: binade_def m_def)
  ultimately show ?thesis
    using b by (simp add: power_int_def field_simps)
qed

lemma rd_abs_err:
  assumes "\<bar>x\<bar> \<le> 2 ^ n" and "n \<le> 1023"
  shows "\<exists>y. rd x = Finite y \<and> \<bar>y - x\<bar> \<le> 2 ^ n / 2 ^ 53"
proof -
  define k where "k = max (binade x) (- 1022) - 52"
  define u where "u = (2::real) powi k"
  define y where "y = of_int (round_he (x / u)) * u"
  have u: "0 < u"
    by (simp add: u_def)
  have ux: "ulp x = u"
    by (simp add: ulp_def u_def k_def)
  have "\<bar>y - x\<bar> = \<bar>of_int (round_he (x / u)) - x / u\<bar> * u"
  proof -
    have "y - x = (of_int (round_he (x / u)) - x / u) * u"
      using u by (simp add: y_def left_diff_distrib)
    then show ?thesis
      using u by (simp add: abs_mult)
  qed
  also have "\<dots> \<le> 1 / 2 * u"
    using round_he_err [of "x / u"] u by (intro mult_right_mono) auto
  finally have e1: "\<bar>y - x\<bar> \<le> u / 2"
    by simp
  have kn: "k \<le> int n - 52"
  proof (cases "x = 0")
    case True
    have "bitlen (- 1) = 0"
      by (simp add: bitlen_eq_zero_iff)
    with True show ?thesis by (simp add: k_def binade_def)
  next
    case False
    have "2 powi binade x \<le> (2::real) powi int n"
      using binade_le [OF False] assms(1) by (simp add: power_int_def)
    then have "binade x \<le> int n"
      by (rule power_int_le_imp_le_exp [rotated]) simp_all
    then show ?thesis by (simp add: k_def)
  qed
  have "u \<le> 2 powi (int n - 52)"
    unfolding u_def using kn by (intro power_int_increasing) auto
  also have "\<dots> = 2 ^ n / 2 ^ 52"
    by (simp add: power_int_diff)
  finally have e2: "u / 2 \<le> 2 ^ n / 2 ^ 53"
    by simp
  have e3: "\<bar>y - x\<bar> \<le> 2 ^ n / 2 ^ 53"
    using e1 e2 by linarith
  have "(2::real) ^ n \<le> 2 ^ 1023"
    using assms(2) by (intro power_increasing) auto
  then have "\<bar>y\<bar> < 2 ^ 1024"
    using e3 assms(1) by (simp add: field_simps abs_if split: if_splits)
  then have "rd x = Finite y"
    unfolding rd_def Let_def ux y_def [symmetric] by (auto simp: abs_if split: if_splits)
  then show ?thesis
    using e3 by blast
qed

lemma rd_0 [simp]: "rd 0 = Finite 0"
  by (simp add: rd_def)

lemma round_he_of_int [simp]: "round_he (of_int m) = m"
  by (simp add: round_he_def)

lemma rd_exact:
  assumes "x / ulp x = of_int m" and "\<bar>x\<bar> < 2 ^ 1024"
  shows "rd x = Finite x"
proof -
  have "of_int (round_he (x / ulp x)) * ulp x = x / ulp x * ulp x"
    by (simp add: assms(1))
  then have "of_int (round_he (x / ulp x)) * ulp x = x"
    using ulp_pos [of x] by simp
  then show ?thesis
    using assms(2) by (simp add: rd_def Let_def abs_if split: if_splits)
qed

lemma two_powi_less_imp_less: "(2::real) powi m < 2 powi n \<Longrightarrow> m < n"
  using power_int_increasing [of n m "2::real"] by (cases "m < n") auto

lemma rd_dyadic:
  assumes "\<bar>n\<bar> < 2 ^ 53" and "j \<le> 1074"
  shows "rd (of_int n / 2 ^ j) = Finite (of_int n / 2 ^ j)"
proof (cases "n = 0")
  case True
  then show ?thesis by simp
next
  case False
  define x :: real where "x = of_int n / 2 ^ j"
  define k where "k = max (binade x) (- 1022) - 52"
  have x0: "x \<noteq> 0"
    using False by (simp add: x_def)
  have "\<bar>real_of_int n\<bar> < 2 ^ 53"
    using assms(1) by (metis of_int_abs of_int_less_iff of_int_numeral of_int_power)
  then have xb: "\<bar>x\<bar> < 2 ^ 53 / 2 ^ j"
    by (simp add: x_def divide_strict_right_mono)
  have "(2::real) powi (53 - int j) = 2 powi 53 / 2 powi int j"
    by (rule power_int_diff) simp
  then have "2 powi binade x < (2::real) powi (53 - int j)"
    using binade_le [OF x0] xb by simp
  then have "binade x < 53 - int j"
    by (rule two_powi_less_imp_less)
  then have kj: "k \<le> - int j"
    using assms(2) by (simp add: k_def)
  define d where "d = nat (- int j - k)"
  have d: "int d = - int j - k"
    using kj by (simp add: d_def)
  have "x / 2 powi k = of_int n * 2 powi (- int j - k)"
    by (simp add: x_def power_int_diff power_int_minus field_simps)
  also have "\<dots> = of_int (n * 2 ^ d)"
    by (simp add: d [symmetric])
  finally have "x / ulp x = of_int (n * 2 ^ d)"
    by (simp add: ulp_def k_def)
  moreover have "\<bar>x\<bar> < 2 ^ 1024"
  proof -
    have "(2::real) ^ 53 / 2 ^ j \<le> 2 ^ 53 / 1"
      by (intro divide_left_mono) auto
    then have "\<bar>x\<bar> < 2 ^ 53"
      using xb by simp
    moreover have "(2::real) ^ 53 < 2 ^ 1024"
      by simp
    ultimately show ?thesis by linarith
  qed
  ultimately show ?thesis
    unfolding x_def [symmetric] by (rule rd_exact)
qed

lemma rd_int: "\<bar>n\<bar> < 2 ^ 53 \<Longrightarrow> rd (of_int n) = Finite (of_int n)"
  using rd_dyadic [of n 0] by simp

lemma rd_numeral [simp]:
  "(numeral k :: int) < 2 ^ 53 \<Longrightarrow> rd (numeral k) = Finite (numeral k)"
  "(numeral k :: int) < 2 ^ 53 \<Longrightarrow> rd (- numeral k) = Finite (- numeral k)"
  using rd_int [of "numeral k"] rd_int [of "- numeral k"] by simp_all

lemma rd_1 [simp]: "rd 1 = Finite 1"
  using rd_int [of 1] by simp

lemma rd_nonneg: "0 \<le> x \<Longrightarrow> rd x = PosInf \<or> (\<exists>y. rd x = Finite y \<and> 0 \<le> y)"
proof -
  assume "0 \<le> x"
  then have "0 \<le> x / ulp x"
    using ulp_pos [of x] by simp
  then have "0 \<le> real_of_int (round_he (x / ulp x)) * ulp x"
    using round_he_nonneg [of "x / ulp x"] ulp_pos [of x] by simp
  then show ?thesis
    by (auto simp: rd_def Let_def)
qed

lemma rd_nonpos: "x \<le> 0 \<Longrightarrow> rd x = NegInf \<or> (\<exists>y. rd x = Finite y \<and> y \<le> 0)"
proof -
  assume "x \<le> 0"
  then have "x / ulp x \<le> 0"
    using ulp_pos [of x] by (simp add: field_simps)
  then have "real_of_int (round_he (x / ulp x)) * ulp x \<le> 0"
    using round_he_nonpos [of "x / ulp x"] ulp_pos [of x] by (simp add: mult_le_0_iff)
  then show ?thesis
    by (auto simp: rd_def Let_def)
qed

lemmas rd_eval = rd_def ulp_def binade_def round_he_def compute_bitlen Let_def

lemmas field_defs = float_field_def dict_get_def py_or_def truthy_def py_float_def
  float_of_int_def

lemmas float_defs = fsub_def fgt_def py_min_def py_min3_def py_max_def

lemmas string_defs = py_lower_def lower_char_def upper_chars_def lower_chars_def
  py_strip_def is_space_def high_pt_states_def

lemmas old_defs = calculate_tax_old_regime_def old_regime_vars_def old_regime_compute_def
  old_slabs_fl_def old_rebate_def old_regime_return_def hra_exemption_of_def is_metro_def
  get_professional_tax_def

lemmas new_defs = calculate_tax_new_regime_def new_regime_vars_def new_regime_compute_def
  new_slabs_fl_def new_rebate_def new_regime_return_def

lemma old_regime_vars_Inr:
  assumes "old_regime_vars data = Inr v"
  obtains salary interest other pt v80c v80d v80ccd v80tta vhli h rp hra where
    "float_field data ''annual_income'' = Inr salary"
    "float_field data ''income_from_interest'' = Inr interest"
    "float_field data ''income_from_other_sources'' = Inr other"
    "get_professional_tax (dict_get data ''state'' (PStr ''Delhi''))
       (fadd (fadd salary interest) other) = Inr pt"
    "float_field data ''section_80c'' = Inr v80c"
    "float_field data ''section_80d'' = Inr v80d"
    "float_field data ''section_80ccd_1b'' = Inr v80ccd"
    "float_field data ''section_80tta'' = Inr v80tta"
    "float_field data ''home_loan_interest'' = Inr vhli"
    "float_field data ''hra_received'' = Inr h"
    "float_field data ''rent_paid'' = Inr rp"
    "hra_exemption_of data salary h rp = Inr hra"
    "v = old_regime_compute (fadd (fadd salary interest) other) pt v80c v80d v80ccd v80tta vhli hra"
  using assms unfolding old_regime_vars_def bind_eq_Inr by force

lemma new_regime_vars_Inr:
  assumes "new_regime_vars data = Inr v"
  obtains salary interest other where
    "float_field data ''annual_income'' = Inr salary"
    "float_field data ''income_from_interest'' = Inr interest"
    "float_field data ''income_from_other_sources'' = Inr other"
    "v = new_regime_compute salary (fadd (fadd salary interest) other)"
  using assms unfolding new_regime_vars_def bind_eq_Inr by force

lemma old_regime_compute_fields:
  "gross_income (old_regime_compute g pt a b c d e h) = g"
  "std_deduction (old_regime_compute g pt a b c d e h) = Finite 50000"
  "prof_tax (old_regime_compute g pt a b c d e h) = pt"
  "ded_80c (old_regime_compute g pt a b c d e h) = py_min a (Finite 150000)"
  "ded_80d (old_regime_compute g pt a b c d e h) = py_min b (Finite 25000)"
  "ded_80ccd_1b (old_regime_compute g pt a b c d e h) = py_min c (Finite 50000)"
  "ded_80tta (old_regime_compute g pt a b c d e h) = py_min d (Finite 10000)"
  "home_loan_interest (old_regime_compute g pt a b c d e h) = py_min e (Finite 200000)"
  "hra_exemption (old_regime_compute g pt a b c d e h) = h"
  by (simp_all add: old_regime_compute_def Let_def)

lemma old_regime_compute_tax:
  fixes g pt a b c d e h :: pyfloat
  defines "v \<equiv> old_regime_compute g pt a b c d e h"
  shows "total_deductions v =
           fadd (fadd (fadd (fadd (fadd (fadd (fadd (std_deduction v) (prof_tax v)) (ded_80c v))
             (ded_80d v)) (ded_80ccd_1b v)) (ded_80tta v)) (home_loan_interest v)) (hra_exemption v)"
    and "taxable_income v = py_max (Finite 0) (fsub (gross_income v) (total_deductions v))"
    and "base_tax v = old_rebate (taxable_income v) (old_slabs_fl (taxable_income v))"
    and "cess v = fmul (base_tax v) (rd 0.04)"
    and "total_tax v = fadd (base_tax v) (cess v)"
  by (simp_all add: v_def old_regime_compute_def Let_def)

lemma new_regime_compute_fields:
  fixes salary g :: pyfloat
  defines "v \<equiv> new_regime_compute salary g"
  shows "gross_income v = g"
    and "std_deduction v = (if fgt salary (Finite 0) then Finite 50000 else Finite 0)"
    and "total_deductions v = std_deduction v"
    and "taxable_income v = py_max (Finite 0) (fsub (gross_income v) (total_deductions v))"
    and "base_tax v = new_rebate (taxable_income v) (new_slabs_fl (taxable_income v))"
    and "cess v = fmul (base_tax v) (rd 0.04)"
    and "total_tax v = fadd (base_tax v) (cess v)"
  by (simp_all add: v_def new_regime_compute_def Let_def)

lemma calculate_tax_old_regime_Inr:
  "calculate_tax_old_regime data = Inr r \<longleftrightarrow>
     (\<exists>v. old_regime_vars data = Inr v \<and> r = old_regime_return v)"
  by (auto simp: calculate_tax_old_regime_def bind_eq_Inr)

lemma calculate_tax_new_regime_Inr:
  "calculate_tax_new_regime data = Inr r \<longleftrightarrow>
     (\<exists>v. new_regime_vars data = Inr v \<and> r = new_regime_return v)"
  by (auto simp: calculate_tax_new_regime_def bind_eq_Inr)

section \<open>Professional tax\<close>

text \<open>
  Claim C6. For every jurisdiction name given as a string and every gross income,
  \<open>get_professional_tax\<close> returns without an error: when the lower-cased, trimmed name
  is one of the ten high-PT states the result is 2500 for a gross income above 150000,
  otherwise 2000 for a gross income above 100000, otherwise 0; for every other name,
  known or not, the result is 0.
\<close>

theorem professional_tax_lookup:
  "get_professional_tax (PStr s) g =
     Inr (if py_strip (py_lower s) \<in> set high_pt_states
          then (if fgt g (Finite 150000) then Finite 2500
                else if fgt g (Finite 100000) then Finite 2000 else Finite 0)
          else Finite 0)
   \<and> length high_pt_states = 10 \<and> distinct high_pt_states"
  by (simp add: get_professional_tax_def Let_def high_pt_states_def)

theorem professional_tax_lookup_witness:
  "get_professional_tax (PStr '' Tamil Nadu '') (Finite 200000) = Inr (Finite 2500)
   \<and> get_professional_tax (PStr ''KERALA'') (Finite 150000) = Inr (Finite 2000)
   \<and> get_professional_tax (PStr ''Kerala'') (Finite 100000) = Inr (Finite 0)
   \<and> get_professional_tax (PStr (''kerala'' @ [CHR 0xA0])) (Finite 200000) = Inr (Finite 2500)
   \<and> get_professional_tax (PStr ([CHR 0x85, CHR 0x1F] @ ''Odisha'')) PosInf = Inr (Finite 2500)
   \<and> get_professional_tax (PStr ''Gujarat'') NaN = Inr (Finite 0)
   \<and> get_professional_tax (PStr ''Delhi'') (Finite 900000) = Inr (Finite 0)
   \<and> get_professional_tax (PStr ''Atlantis'') (Finite 900000) = Inr (Finite 0)"
  using professional_tax_lookup [of "'' Tamil Nadu ''" "Finite 200000"]
    professional_tax_lookup [of "''KERALA''" "Finite 150000"]
    professional_tax_lookup [of "''Kerala''" "Finite 100000"]
    professional_tax_lookup [of "''kerala'' @ [CHR 0xA0]" "Finite 200000"]
    professional_tax_lookup [of "[CHR 0x85, CHR 0x1F] @ ''Odisha''" PosInf]
    professional_tax_lookup [of "''Gujarat''" NaN]
    professional_tax_lookup [of "''Delhi''" "Finite 900000"]
    professional_tax_lookup [of "''Atlantis''" "Finite 900000"]
  by (simp add: string_defs fgt_def)

section \<open>Rebate\<close>

text \<open>
  Claim C1. Rebate dominance: whenever the taxable income computed by the Old-Regime
  calculator is at most 500000, the base tax it returns is 0, whatever the slab
  computation gives; whenever the taxable income computed by the New-Regime calculator
  is at most 700000, the base tax it returns is 0.
\<close>

theorem rebate_dominance:
  "(old_regime_vars data = Inr v \<and> fle (taxable_income v) (Finite 500000) \<longrightarrow>
      (\<exists>r. calculate_tax_old_regime data = Inr r \<and> out_base_tax r = Finite 0))
   \<and> (new_regime_vars data' = Inr w \<and> fle (taxable_income w) (Finite 700000) \<longrightarrow>
      (\<exists>r. calculate_tax_new_regime data' = Inr r \<and> out_base_tax r = Finite 0))"
proof (intro conjI impI)
  assume a: "old_regime_vars data = Inr v \<and> fle (taxable_income v) (Finite 500000)"
  then have "base_tax v = Finite 0"
    by (auto elim!: old_regime_vars_Inr simp: old_regime_compute_tax old_rebate_def)
  with a show "\<exists>r. calculate_tax_old_regime data = Inr r \<and> out_base_tax r = Finite 0"
    by (simp add: calculate_tax_old_regime_Inr old_regime_return_def)
next
  assume a: "new_regime_vars data' = Inr w \<and> fle (taxable_income w) (Finite 700000)"
  then have "base_tax w = Finite 0"
    by (auto elim!: new_regime_vars_Inr simp: new_regime_compute_fields new_rebate_def)
  with a show "\<exists>r. calculate_tax_new_regime data' = Inr r \<and> out_base_tax r = Finite 0"
    by (simp add: calculate_tax_new_regime_Inr new_regime_return_def)
qed

definition rebate_old_input :: pydict where
  "rebate_old_input = [''annual_income'' \<mapsto> PFloat (Finite 450000)]"

lemma rebate_old_input_rd:
  "rd (1 / 20) = Finite (3602879701896397 / 72057594037927936)"
  "rd (33776997205278721875 / 4503599627370496) = Finite 7500"
  "rd (1 / 25) = Finite (5764607523034235 / 144115188075855872)"
  by (simp_all add: rd_eval)

lemma rebate_old_input_vars:
  "old_regime_vars rebate_old_input =
     Inr (old_regime_compute (Finite 450000) (Finite 0)
       (Finite 0) (Finite 0) (Finite 0) (Finite 0) (Finite 0)
       (Finite 0))"
  by (simp add: rebate_old_input_def old_regime_vars_def hra_exemption_of_def is_metro_def
      get_professional_tax_def field_defs float_defs string_defs rebate_old_input_rd)

lemma rebate_old_input_compute:
  "old_regime_compute (Finite 450000) (Finite 0)
       (Finite 0) (Finite 0) (Finite 0) (Finite 0) (Finite 0)
       (Finite 0) =
     \<lparr> gross_income = Finite 450000, std_deduction = Finite 50000, total_deductions = Finite 50000,
       taxable_income = Finite 400000, base_tax = Finite 0,
       cess = Finite 0,
       total_tax = Finite 0,
       prof_tax = Finite 0, ded_80c = Finite 0, ded_80d = Finite 0, ded_80ccd_1b = Finite 0,
       ded_80tta = Finite 0, home_loan_interest = Finite 0, hra_exemption = Finite 0 \<rparr>"
  by (simp add: old_regime_compute_def old_slabs_fl_def old_rebate_def float_defs Let_def rebate_old_input_rd)

definition rebate_new_input :: pydict where
  "rebate_new_input = [''annual_income'' \<mapsto> PFloat (Finite 700000)]"

lemma rebate_new_input_rd:
  "rd (1 / 10) = Finite (3602879701896397 / 36028797018963968)"
  "rd (11258999068426240625 / 2251799813685248) = Finite 5000"
  "rd (1 / 25) = Finite (5764607523034235 / 144115188075855872)"
  by (simp_all add: rd_eval)

lemma rebate_new_input_vars:
  "new_regime_vars rebate_new_input =
     Inr (new_regime_compute (Finite 700000) (Finite 700000))"
  by (simp add: rebate_new_input_def new_regime_vars_def field_defs)

lemma rebate_new_input_compute:
  "new_regime_compute (Finite 700000) (Finite 700000) =
     \<lparr> gross_income = Finite 700000, std_deduction = Finite 50000, total_deductions = Finite 50000,
       taxable_income = Finite 650000, base_tax = Finite 0,
       cess = Finite 0,
       total_tax = Finite 0 \<rparr>"
  by (simp add: new_regime_compute_def new_slabs_fl_def new_rebate_def float_defs Let_def rebate_new_input_rd)

lemma rebate_slabs_rd:
  "rd (1 / 20) = Finite (3602879701896397 / 72057594037927936)"
  "rd (33776997205278721875 / 4503599627370496) = Finite 7500"
  "rd (1 / 10) = Finite (3602879701896397 / 36028797018963968)"
  "rd (11258999068426240625 / 2251799813685248) = Finite 5000"
  by (simp_all add: rd_eval)

lemma rebate_slabs:
  "old_slabs_fl (Finite 400000) = Finite 7500" "new_slabs_fl (Finite 650000) = Finite 20000"
  by (simp_all add: old_slabs_fl_def new_slabs_fl_def float_defs rebate_slabs_rd)

theorem rebate_dominance_witness:
  "old_slabs 400000 = 7500 \<and> new_slabs 650000 = 20000 \<and>
   old_slabs_fl (Finite 400000) = Finite 7500 \<and> new_slabs_fl (Finite 650000) = Finite 20000 \<and>
   (\<exists>v. old_regime_vars rebate_old_input = Inr v \<and> taxable_income v = Finite 400000) \<and>
   (\<exists>w. new_regime_vars rebate_new_input = Inr w \<and> taxable_income w = Finite 650000) \<and>
   (\<exists>r. calculate_tax_old_regime rebate_old_input = Inr r \<and> out_base_tax r = Finite 0) \<and>
   (\<exists>r. calculate_tax_new_regime rebate_new_input = Inr r \<and> out_base_tax r = Finite 0)"
proof -
  obtain v where v: "old_regime_vars rebate_old_input = Inr v"
      "taxable_income v = Finite 400000"
    by (simp add: rebate_old_input_vars rebate_old_input_compute)
  obtain w where w: "new_regime_vars rebate_new_input = Inr w"
      "taxable_income w = Finite 650000"
    by (simp add: rebate_new_input_vars rebate_new_input_compute)
  have "\<exists>r. calculate_tax_old_regime rebate_old_input = Inr r \<and> out_base_tax r = Finite 0"
    and "\<exists>r. calculate_tax_new_regime rebate_new_input = Inr r \<and> out_base_tax r = Finite 0"
    using rebate_dominance [of rebate_old_input v rebate_new_input w] v w by simp_all
  moreover have "old_slabs 400000 = 7500" "new_slabs 650000 = 20000"
    by (simp_all add: old_slabs_def new_slabs_def)
  ultimately show ?thesis using v w rebate_slabs by blast
qed

section \<open>Cess\<close>

text \<open>
  Claim C2, as stated: in both regimes the returned total_tax_payable equals the returned
  base_tax times 1.04 exactly, and the returned cess is exactly 4% of the returned
  base_tax. The three values are rounded to two decimals one by one on return, so the
  stated equality fails: a salary of 750001 gives, in the New Regime, base_tax 25000.1,
  cess 1000.0 and total_tax_payable 26000.1, while 25000.1 * 1.04 is 26000.104. The
  equality fails for the exact values of the three returned doubles, and it fails when
  the product is computed in double arithmetic.
\<close>

definition cess_input :: pydict where
  "cess_input = [''annual_income'' \<mapsto> PInt 750001]"

lemma cess_input_rd:
  "rd (1 / 10) = Finite (3602879701896397 / 36028797018963968)"
  "rd (360291573069341596397 / 36028797018963968) = Finite (5497613114461389 / 549755813888)"
  "rd (13743950322781389 / 549755813888) = Finite (3435987580695347 / 137438953472)"
  "rd (1 / 25) = Finite (5764607523034235 / 144115188075855872)"
  "rd (19807119856728597922120586204545 / 19807040628566084398385987584) = Finite (8796128206580089 / 8796093022208)"
  "rd (228699333371082297 / 8796093022208) = Finite (3573427083923161 / 137438953472)"
  "rd (250001 / 10) = Finite (3435987580695347 / 137438953472)"
  "rd (260001 / 10) = Finite (3573426534167347 / 137438953472)"
  by (simp_all add: rd_eval)

lemma cess_input_vars:
  "new_regime_vars cess_input =
     Inr (new_regime_compute (Finite 750001) (Finite 750001))"
  by (simp add: cess_input_def new_regime_vars_def field_defs)

lemma cess_input_compute:
  "new_regime_compute (Finite 750001) (Finite 750001) =
     \<lparr> gross_income = Finite 750001, std_deduction = Finite 50000, total_deductions = Finite 50000,
       taxable_income = Finite 700001, base_tax = Finite (3435987580695347 / 137438953472),
       cess = Finite (8796128206580089 / 8796093022208),
       total_tax = Finite (3573427083923161 / 137438953472) \<rparr>"
  by (simp add: new_regime_compute_def new_slabs_fl_def new_rebate_def float_defs Let_def cess_input_rd)

lemma cess_input_return:
  "new_regime_return
     \<lparr> gross_income = Finite 750001, std_deduction = Finite 50000, total_deductions = Finite 50000,
         taxable_income = Finite 700001, base_tax = Finite (3435987580695347 / 137438953472),
         cess = Finite (8796128206580089 / 8796093022208),
         total_tax = Finite (3573427083923161 / 137438953472) \<rparr> =
     \<lparr> out_regime = ''New Regime'', out_gross_income = Finite 750001,
       out_total_deductions = Finite 50000, out_taxable_income = Finite 700001,
       out_base_tax = rd 25000.1, out_cess = Finite 1000,
       out_total_tax_payable = rd 26000.1,
       out_components = None \<rparr>"
  by (simp add: new_regime_return_def round_he_def Let_def cess_input_rd)

lemma cess_input_result:
  "calculate_tax_new_regime cess_input =
     Inr \<lparr> out_regime = ''New Regime'', out_gross_income = Finite 750001,
       out_total_deductions = Finite 50000, out_taxable_income = Finite 700001,
       out_base_tax = rd 25000.1, out_cess = Finite 1000,
       out_total_tax_payable = rd 26000.1,
       out_components = None \<rparr>"
  by (simp add: calculate_tax_new_regime_def cess_input_vars cess_input_compute cess_input_return)

lemma cess_product_rd:
  "rd (26 / 25) = Finite (1170935903116329 / 1125899906842624)"
  "rd (1 / 25) = Finite (5764607523034235 / 144115188075855872)"
  "rd (4023321220897996506618050021163 / 154742504910672534362390528) = Finite (3573427083923161 / 137438953472)"
  "rd (19807119856728597922120586204545 / 19807040628566084398385987584) = Finite (8796128206580089 / 8796093022208)"
  by (simp_all add: rd_eval)

theorem cess_exact_counterexample:
  "calculate_tax_new_regime cess_input =
     Inr \<lparr> out_regime = ''New Regime'', out_gross_income = Finite 750001,
           out_total_deductions = Finite 50000, out_taxable_income = Finite 700001,
           out_base_tax = rd 25000.1, out_cess = Finite 1000,
           out_total_tax_payable = rd 26000.1, out_components = None \<rparr>
   \<and> rd 25000.1 = Finite (3435987580695347 / 137438953472)
   \<and> rd 26000.1 = Finite (3573426534167347 / 137438953472)
   \<and> (3573426534167347 / 137438953472 :: real) \<noteq> 3435987580695347 / 137438953472 * 1.04
   \<and> (1000 :: real) \<noteq> 3435987580695347 / 137438953472 * 0.04
   \<and> fmul (rd 25000.1) (rd 1.04) \<noteq> rd 26000.1
   \<and> fmul (rd 25000.1) (rd 0.04) \<noteq> Finite 1000"
  by (simp add: cess_input_result cess_input_rd cess_product_rd)

text \<open>
  Claim C2, amended. Both calculators compute the cess as base_tax * 0.04 and the total
  as base_tax + cess in double arithmetic, and return the three values rounded to two
  decimals one by one. So the relationship holds among the returned values only up to
  these roundings: for a base tax of at most 10^10 in absolute value the returned
  total_tax_payable is within 0.0103 of 1.04 times the returned base_tax, and the
  returned cess within 0.0053 of 4% of it.
\<close>

lemma rd_lit_004: "rd (1 / 25) = Finite (5764607523034235 / 144115188075855872)"
  by (simp add: rd_eval)

lemma pow_vals:
  "(2::real) ^ 18 = 262144" "(2::real) ^ 34 = 17179869184" "(2::real) ^ 35 = 34359738368"
  "(10::real) ^ 10 = 10000000000"
  by simp_all

lemma rd_35:
  assumes "\<bar>x\<bar> \<le> 2 ^ 35"
  obtains y where "rd x = Finite y" "\<bar>y - x\<bar> \<le> 1 / 2 ^ 18"
  using rd_abs_err [of x 35] assms by auto

lemma round2_35:
  assumes "\<bar>x\<bar> \<le> 2 ^ 34"
  obtains y where "py_round2 (Finite x) = Finite y" "\<bar>y - x\<bar> \<le> 1 / 200 + 1 / 2 ^ 18"
proof -
  define z :: real where "z = of_int (round_he (x * 100)) / 100"
  have "\<bar>z - x\<bar> = \<bar>of_int (round_he (x * 100)) - x * 100\<bar> / 100"
    by (simp add: z_def field_simps)
  then have z: "\<bar>z - x\<bar> \<le> 1 / 200"
    using round_he_err [of "x * 100"] by simp
  then have "\<bar>z\<bar> \<le> 2 ^ 35"
    using assms unfolding pow_vals by linarith
  then obtain y where y: "rd z = Finite y" "\<bar>y - z\<bar> \<le> 1 / 2 ^ 18"
    by (rule rd_35)
  have "py_round2 (Finite x) = Finite y"
    using y(1) by (simp add: z_def)
  moreover have "\<bar>y - x\<bar> \<le> 1 / 200 + 1 / 2 ^ 18"
    using y(2) z unfolding pow_vals by linarith
  ultimately show ?thesis ..
qed

lemma cess_bound:
  assumes b: "\<bar>b\<bar> \<le> 10 ^ 10"
  shows "\<exists>B C T. py_round2 (Finite b) = Finite B
     \<and> py_round2 (fmul (Finite b) (rd 0.04)) = Finite C
     \<and> py_round2 (fadd (Finite b) (fmul (Finite b) (rd 0.04))) = Finite T
     \<and> \<bar>T - B * 1.04\<bar> \<le> 103 / 10000 \<and> \<bar>C - B * 0.04\<bar> \<le> 53 / 10000"
proof -
  define k :: real where "k = 5764607523034235 / 144115188075855872"
  have b': "- (10 ^ 10) \<le> b" "b \<le> 10 ^ 10"
    using b unfolding pow_vals by linarith+
  have "\<bar>b * k\<bar> \<le> 2 ^ 35"
    using b' unfolding k_def pow_vals by linarith
  then obtain c where c: "rd (b * k) = Finite c" "\<bar>c - b * k\<bar> \<le> 1 / 2 ^ 18"
    by (rule rd_35)
  have c': "b * k - 1 / 2 ^ 18 \<le> c" "c \<le> b * k + 1 / 2 ^ 18"
    using c(2) unfolding pow_vals by linarith+
  have "\<bar>b + c\<bar> \<le> 2 ^ 35"
    using b' c' unfolding k_def pow_vals by linarith
  then obtain t where t: "rd (b + c) = Finite t" "\<bar>t - (b + c)\<bar> \<le> 1 / 2 ^ 18"
    by (rule rd_35)
  have t': "b + c - 1 / 2 ^ 18 \<le> t" "t \<le> b + c + 1 / 2 ^ 18"
    using t(2) unfolding pow_vals by linarith+
  have "\<bar>b\<bar> \<le> 2 ^ 34"
    using b' unfolding pow_vals by linarith
  then obtain B where B: "py_round2 (Finite b) = Finite B" "\<bar>B - b\<bar> \<le> 1 / 200 + 1 / 2 ^ 18"
    by (rule round2_35)
  have "\<bar>c\<bar> \<le> 2 ^ 34"
    using b' c' unfolding k_def pow_vals by linarith
  then obtain C where C: "py_round2 (Finite c) = Finite C" "\<bar>C - c\<bar> \<le> 1 / 200 + 1 / 2 ^ 18"
    by (rule round2_35)
  have "\<bar>t\<bar> \<le> 2 ^ 34"
    using b' c' t' unfolding k_def pow_vals by linarith
  then obtain T where T: "py_round2 (Finite t) = Finite T" "\<bar>T - t\<bar> \<le> 1 / 200 + 1 / 2 ^ 18"
    by (rule round2_35)
  have B': "b - (1 / 200 + 1 / 2 ^ 18) \<le> B" "B \<le> b + (1 / 200 + 1 / 2 ^ 18)"
    using B(2) unfolding pow_vals by linarith+
  have C': "c - (1 / 200 + 1 / 2 ^ 18) \<le> C" "C \<le> c + (1 / 200 + 1 / 2 ^ 18)"
    using C(2) unfolding pow_vals by linarith+
  have T': "t - (1 / 200 + 1 / 2 ^ 18) \<le> T" "T \<le> t + (1 / 200 + 1 / 2 ^ 18)"
    using T(2) unfolding pow_vals by linarith+
  have "\<bar>T - B * (26 / 25)\<bar> \<le> 103 / 10000"
    using b' c' t' B' T' unfolding k_def pow_vals by linarith
  then have e1: "\<bar>T - B * 1.04\<bar> \<le> 103 / 10000"
    by simp
  have "\<bar>C - B * (1 / 25)\<bar> \<le> 53 / 10000"
    using b' c' B' C' unfolding k_def pow_vals by linarith
  then have e2: "\<bar>C - B * 0.04\<bar> \<le> 53 / 10000"
    by simp
  have "fmul (Finite b) (rd 0.04) = Finite c"
    using c(1) by (simp add: rd_lit_004 k_def)
  then show ?thesis
    using B(1) C(1) T(1) t(1) e1 e2 by auto
qed

theorem cess_relationship:
  "(calculate_tax_old_regime data = Inr r \<longrightarrow>
      (\<exists>v. old_regime_vars data = Inr v
         \<and> cess v = fmul (base_tax v) (rd 0.04)
         \<and> total_tax v = fadd (base_tax v) (cess v)
         \<and> out_base_tax r = py_round2 (base_tax v)
         \<and> out_cess r = py_round2 (cess v)
         \<and> out_total_tax_payable r = py_round2 (total_tax v)
         \<and> (base_tax v = Finite b \<and> \<bar>b\<bar> \<le> 10 ^ 10 \<longrightarrow>
              (\<exists>B C T. out_base_tax r = Finite B \<and> out_cess r = Finite C
                 \<and> out_total_tax_payable r = Finite T
                 \<and> \<bar>T - B * 1.04\<bar> \<le> 103 / 10000 \<and> \<bar>C - B * 0.04\<bar> \<le> 53 / 10000))))
   \<and> (calculate_tax_new_regime data' = Inr r' \<longrightarrow>
      (\<exists>v. new_regime_vars data' = Inr v
         \<and> cess v = fmul (base_tax v) (rd 0.04)
         \<and> total_tax v = fadd (base_tax v) (cess v)
         \<and> out_base_tax r' = py_round2 (base_tax v)
         \<and> out_cess r' = py_round2 (cess v)
         \<and> out_total_tax_payable r' = py_round2 (total_tax v)
         \<and> (base_tax v = Finite b' \<and> \<bar>b'\<bar> \<le> 10 ^ 10 \<longrightarrow>
              (\<exists>B C T. out_base_tax r' = Finite B \<and> out_cess r' = Finite C
                 \<and> out_total_tax_payable r' = Finite T
                 \<and> \<bar>T - B * 1.04\<bar> \<le> 103 / 10000 \<and> \<bar>C - B * 0.04\<bar> \<le> 53 / 10000))))"
proof (intro conjI impI)
  assume "calculate_tax_old_regime data = Inr r"
  then obtain v where v: "old_regime_vars data = Inr v" and r: "r = old_regime_return v"
    by (auto simp: calculate_tax_old_regime_Inr)
  have c: "cess v = fmul (base_tax v) (rd 0.04)" and t: "total_tax v = fadd (base_tax v) (cess v)"
    using v by (auto elim!: old_regime_vars_Inr simp: old_regime_compute_tax)
  have o: "out_base_tax r = py_round2 (base_tax v)" "out_cess r = py_round2 (cess v)"
    "out_total_tax_payable r = py_round2 (total_tax v)"
    by (simp_all add: r old_regime_return_def)
  have "\<exists>B C T. out_base_tax r = Finite B \<and> out_cess r = Finite C
      \<and> out_total_tax_payable r = Finite T
      \<and> \<bar>T - B * 1.04\<bar> \<le> 103 / 10000 \<and> \<bar>C - B * 0.04\<bar> \<le> 53 / 10000"
    if "base_tax v = Finite b \<and> \<bar>b\<bar> \<le> 10 ^ 10"
    using cess_bound [of b] that by (simp add: o c t)
  then show "\<exists>v. old_regime_vars data = Inr v
         \<and> cess v = fmul (base_tax v) (rd 0.04)
         \<and> total_tax v = fadd (base_tax v) (cess v)
         \<and> out_base_tax r = py_round2 (base_tax v)
         \<and> out_cess r = py_round2 (cess v)
         \<and> out_total_tax_payable r = py_round2 (total_tax v)
         \<and> (base_tax v = Finite b \<and> \<bar>b\<bar> \<le> 10 ^ 10 \<longrightarrow>
              (\<exists>B C T. out_base_tax r = Finite B \<and> out_cess r = Finite C
                 \<and> out_total_tax_payable r = Finite T
                 \<and> \<bar>T - B * 1.04\<bar> \<le> 103 / 10000 \<and> \<bar>C - B * 0.04\<bar> \<le> 53 / 10000))"
    using v c t o by blast
next
  assume "calculate_tax_new_regime data' = Inr r'"
  then obtain v where v: "new_regime_vars data' = Inr v" and r: "r' = new_regime_return v"
    by (auto simp: calculate_tax_new_regime_Inr)
  have c: "cess v = fmul (base_tax v) (rd 0.04)" and t: "total_tax v = fadd (base_tax v) (cess v)"
    using v by (auto elim!: new_regime_vars_Inr simp: new_regime_compute_fields)
  have o: "out_base_tax r' = py_round2 (base_tax v)" "out_cess r' = py_round2 (cess v)"
    "out_total_tax_payable r' = py_round2 (total_tax v)"
    by (simp_all add: r new_regime_return_def)
  have "\<exists>B C T. out_base_tax r' = Finite B \<and> out_cess r' = Finite C
      \<and> out_total_tax_payable r' = Finite T
      \<and> \<bar>T - B * 1.04\<bar> \<le> 103 / 10000 \<and> \<bar>C - B * 0.04\<bar> \<le> 53 / 10000"
    if "base_tax v = Finite b' \<and> \<bar>b'\<bar> \<le> 10 ^ 10"
    using cess_bound [of b'] that by (simp add: o c t)
  then show "\<exists>v. new_regime_vars data' = Inr v
         \<and> cess v = fmul (base_tax v) (rd 0.04)
         \<and> total_tax v = fadd (base_tax v) (cess v)
         \<and> out_base_tax r' = py_round2 (base_tax v)
         \<and> out_cess r' = py_round2 (cess v)
         \<and> out_total_tax_payable r' = py_round2 (total_tax v)
         \<and> (base_tax v = Finite b' \<and> \<bar>b'\<bar> \<le> 10 ^ 10 \<longrightarrow>
              (\<exists>B C T. out_base_tax r' = Finite B \<and> out_cess r' = Finite C
                 \<and> out_total_tax_payable r' = Finite T
                 \<and> \<bar>T - B * 1.04\<bar> \<le> 103 / 10000 \<and> \<bar>C - B * 0.04\<bar> \<le> 53 / 10000))"
    using v c t o by blast
qed

definition cess_old_input :: pydict where
  "cess_old_input = [''annual_income'' \<mapsto> PInt 750001, ''state'' \<mapsto> PStr ''Kerala'']"

lemma cess_old_input_rd:
  "rd (1 / 5) = Finite (3602879701896397 / 18014398509481984)"
  "rd (711572344004240303897 / 18014398509481984) = Finite (5428866149934695 / 137438953472)"
  "rd (7146853068334695 / 137438953472) = Finite (7146853068334695 / 137438953472)"
  "rd (1 / 25) = Finite (5764607523034235 / 144115188075855872)"
  "rd (41198802963742488393704923283325 / 19807040628566084398385987584) = Finite (4573985963734205 / 2199023255552)"
  "rd (118923635057089325 / 2199023255552) = Finite (7432727191068083 / 137438953472)"
  "rd (260001 / 5) = Finite (3573426534167347 / 68719476736)"
  "rd (208001 / 100) = Finite (1143497590445179 / 549755813888)"
  "rd (5408021 / 100) = Finite (7432727465945989 / 137438953472)"
  by (simp_all add: rd_eval)

lemma cess_old_input_vars:
  "old_regime_vars cess_old_input =
     Inr (old_regime_compute (Finite 750001) (Finite 2500)
       (Finite 0) (Finite 0) (Finite 0) (Finite 0) (Finite 0)
       (Finite 0))"
  by (simp add: cess_old_input_def old_regime_vars_def hra_exemption_of_def is_metro_def
      get_professional_tax_def field_defs float_defs string_defs cess_old_input_rd)

lemma cess_old_input_compute:
  "old_regime_compute (Finite 750001) (Finite 2500)
       (Finite 0) (Finite 0) (Finite 0) (Finite 0) (Finite 0)
       (Finite 0) =
     \<lparr> gross_income = Finite 750001, std_deduction = Finite 50000, total_deductions = Finite 52500,
       taxable_income = Finite 697501, base_tax = Finite (7146853068334695 / 137438953472),
       cess = Finite (4573985963734205 / 2199023255552),
       total_tax = Finite (7432727191068083 / 137438953472),
       prof_tax = Finite 2500, ded_80c = Finite 0, ded_80d = Finite 0, ded_80ccd_1b = Finite 0,
       ded_80tta = Finite 0, home_loan_interest = Finite 0, hra_exemption = Finite 0 \<rparr>"
  by (simp add: old_regime_compute_def old_slabs_fl_def old_rebate_def float_defs Let_def cess_old_input_rd)

lemma cess_old_input_return:
  "old_regime_return
     \<lparr> gross_income = Finite 750001, std_deduction = Finite 50000, total_deductions = Finite 52500,
         taxable_income = Finite 697501, base_tax = Finite (7146853068334695 / 137438953472),
         cess = Finite (4573985963734205 / 2199023255552),
         total_tax = Finite (7432727191068083 / 137438953472),
         prof_tax = Finite 2500, ded_80c = Finite 0, ded_80d = Finite 0, ded_80ccd_1b = Finite 0,
         ded_80tta = Finite 0, home_loan_interest = Finite 0, hra_exemption = Finite 0 \<rparr> =
     \<lparr> out_regime = ''Old Regime'', out_gross_income = Finite 750001,
       out_total_deductions = Finite 52500, out_taxable_income = Finite 697501,
       out_base_tax = rd 52000.2, out_cess = rd 2080.01,
       out_total_tax_payable = rd 54080.21,
       out_components = Some
         [(''Standard Deduction'', Finite 50000), (''80C'', Finite 0), (''80D'', Finite 0),
         (''80CCD(1B) (NPS)'', Finite 0), (''80TTA'', Finite 0),
         (''HRA Exemption'', Finite 0), (''Home Loan Interest (24(b))'', Finite 0),
         (''Professional Tax'', Finite 2500)] \<rparr>"
  by (simp add: old_regime_return_def round_he_def Let_def cess_old_input_rd)

lemma cess_old_input_result:
  "calculate_tax_old_regime cess_old_input =
     Inr \<lparr> out_regime = ''Old Regime'', out_gross_income = Finite 750001,
       out_total_deductions = Finite 52500, out_taxable_income = Finite 697501,
       out_base_tax = rd 52000.2, out_cess = rd 2080.01,
       out_total_tax_payable = rd 54080.21,
       out_components = Some
         [(''Standard Deduction'', Finite 50000), (''80C'', Finite 0), (''80D'', Finite 0),
         (''80CCD(1B) (NPS)'', Finite 0), (''80TTA'', Finite 0),
         (''HRA Exemption'', Finite 0), (''Home Loan Interest (24(b))'', Finite 0),
         (''Professional Tax'', Finite 2500)] \<rparr>"
  by (simp add: calculate_tax_old_regime_def cess_old_input_vars cess_old_input_compute cess_old_input_return)

theorem cess_relationship_witness:
  "(\<exists>r B C T. calculate_tax_old_regime cess_old_input = Inr r
       \<and> out_base_tax r = Finite B \<and> out_cess r = Finite C \<and> out_total_tax_payable r = Finite T
       \<and> rd 52000.2 = Finite B \<and> rd 2080.01 = Finite C \<and> rd 54080.21 = Finite T
       \<and> \<bar>T - B * 1.04\<bar> \<le> 103 / 10000 \<and> \<bar>C - B * 0.04\<bar> \<le> 53 / 10000)
   \<and> (\<exists>r B C T. calculate_tax_new_regime cess_input = Inr r
       \<and> out_base_tax r = Finite B \<and> out_cess r = Finite C \<and> out_total_tax_payable r = Finite T
       \<and> rd 25000.1 = Finite B \<and> Finite 1000 = Finite C \<and> rd 26000.1 = Finite T
       \<and> \<bar>T - B * 1.04\<bar> \<le> 103 / 10000 \<and> \<bar>C - B * 0.04\<bar> \<le> 53 / 10000)"
proof -
  obtain ro where ro: "calculate_tax_old_regime cess_old_input = Inr ro"
      "out_base_tax ro = rd 52000.2" "out_cess ro = rd 2080.01"
      "out_total_tax_payable ro = rd 54080.21"
    by (simp add: cess_old_input_result)
  obtain rn where rn: "calculate_tax_new_regime cess_input = Inr rn"
      "out_base_tax rn = rd 25000.1" "out_cess rn = Finite 1000"
      "out_total_tax_payable rn = rd 26000.1"
    by (simp add: cess_input_result)
  have bo: "\<bar>7146853068334695 / 137438953472 :: real\<bar> \<le> 10 ^ 10"
    and bn: "\<bar>3435987580695347 / 137438953472 :: real\<bar> \<le> 10 ^ 10"
    by simp_all
  from cess_relationship [of cess_old_input ro "7146853068334695 / 137438953472"
      cess_input rn "3435987580695347 / 137438953472"] ro rn bo bn
  show ?thesis
    by (simp add: cess_old_input_vars cess_old_input_compute cess_input_vars cess_input_compute)
      metis
qed

section \<open>Scenario 2 of the specification\<close>

text \<open>
  Claim C3, as stated: for a salary of 800000 and no other income the New-Regime
  calculator returns taxable_income 750000, base_tax 45000, cess 1800 and
  total_tax_payable 46800. The slabs give 15000 + (750000 - 600000) * 0.10 = 30000,
  so the last three figures are not what the calculator returns.
\<close>

definition scenario2 :: pydict where
  "scenario2 =
     [''annual_income'' \<mapsto> PFloat (Finite 800000),
      ''income_from_interest'' \<mapsto> PFloat (Finite 0),
      ''income_from_other_sources'' \<mapsto> PFloat (Finite 0),
      ''section_80c'' \<mapsto> PFloat (Finite 150000),
      ''section_80d'' \<mapsto> PFloat (Finite 25000),
      ''section_80ccd_1b'' \<mapsto> PFloat (Finite 50000),
      ''state'' \<mapsto> PStr ''Delhi'']"

lemma scenario2_rd:
  "rd (1 / 10) = Finite (3602879701896397 / 36028797018963968)"
  "rd (33776997205278721875 / 2251799813685248) = Finite 15000"
  "rd (1 / 25) = Finite (5764607523034235 / 144115188075855872)"
  "rd (10808639105689190625 / 9007199254740992) = Finite 1200"
  by (simp_all add: rd_eval)

lemma scenario2_vars:
  "new_regime_vars scenario2 =
     Inr (new_regime_compute (Finite 800000) (Finite 800000))"
  by (simp add: scenario2_def new_regime_vars_def field_defs)

lemma scenario2_compute:
  "new_regime_compute (Finite 800000) (Finite 800000) =
     \<lparr> gross_income = Finite 800000, std_deduction = Finite 50000, total_deductions = Finite 50000,
       taxable_income = Finite 750000, base_tax = Finite 30000,
       cess = Finite 1200,
       total_tax = Finite 31200 \<rparr>"
  by (simp add: new_regime_compute_def new_slabs_fl_def new_rebate_def float_defs Let_def scenario2_rd)

lemma scenario2_return:
  "new_regime_return
     \<lparr> gross_income = Finite 800000, std_deduction = Finite 50000, total_deductions = Finite 50000,
         taxable_income = Finite 750000, base_tax = Finite 30000,
         cess = Finite 1200,
         total_tax = Finite 31200 \<rparr> =
     \<lparr> out_regime = ''New Regime'', out_gross_income = Finite 800000,
       out_total_deductions = Finite 50000, out_taxable_income = Finite 750000,
       out_base_tax = Finite 30000, out_cess = Finite 1200,
       out_total_tax_payable = Finite 31200,
       out_components = None \<rparr>"
  by (simp add: new_regime_return_def round_he_def Let_def scenario2_rd)

lemma scenario2_result:
  "calculate_tax_new_regime scenario2 =
     Inr \<lparr> out_regime = ''New Regime'', out_gross_income = Finite 800000,
       out_total_deductions = Finite 50000, out_taxable_income = Finite 750000,
       out_base_tax = Finite 30000, out_cess = Finite 1200,
       out_total_tax_payable = Finite 31200,
       out_components = None \<rparr>"
  by (simp add: calculate_tax_new_regime_def scenario2_vars scenario2_compute scenario2_return)

theorem scenario2_counterexample:
  "\<not> isl (calculate_tax_new_regime scenario2)
   \<and> out_taxable_income (projr (calculate_tax_new_regime scenario2)) = Finite 750000
   \<and> out_base_tax (projr (calculate_tax_new_regime scenario2)) \<noteq> Finite 45000
   \<and> out_cess (projr (calculate_tax_new_regime scenario2)) \<noteq> Finite 1800
   \<and> out_total_tax_payable (projr (calculate_tax_new_regime scenario2)) \<noteq> Finite 46800"
  by (simp add: scenario2_result)

text \<open>
  Claim C3, amended. For annual_income 800000, income_from_interest 0 and
  income_from_other_sources 0, whatever the other fields hold, the New-Regime
  calculator returns taxable_income 750000, base_tax 30000, cess 1200 and
  total_tax_payable 31200.
\<close>

lemma scenario2_rest_vars:
  "new_regime_vars
     (rest(''annual_income'' \<mapsto> PFloat (Finite 800000),
           ''income_from_interest'' \<mapsto> PFloat (Finite 0),
           ''income_from_other_sources'' \<mapsto> PFloat (Finite 0))) =
     Inr (new_regime_compute (Finite 800000) (Finite 800000))"
  by (simp add: new_regime_vars_def field_defs)

theorem scenario2_new_regime:
  "calculate_tax_new_regime
     (rest(''annual_income'' \<mapsto> PFloat (Finite 800000),
           ''income_from_interest'' \<mapsto> PFloat (Finite 0),
           ''income_from_other_sources'' \<mapsto> PFloat (Finite 0))) =
     Inr \<lparr> out_regime = ''New Regime'', out_gross_income = Finite 800000,
           out_total_deductions = Finite 50000, out_taxable_income = Finite 750000,
           out_base_tax = Finite 30000, out_cess = Finite 1200,
           out_total_tax_payable = Finite 31200, out_components = None \<rparr>"
  by (simp add: calculate_tax_new_regime_def scenario2_rest_vars scenario2_compute
      scenario2_return)

section \<open>Slabs\<close>











end
